theory Spec2Isabelle
  imports Main
begin

section \<open>Python values, errors and the AST\<close>

text \<open>
  The converter of \<^verbatim>\<open>posthog/hogql/parser.py\<close> turns an ANTLR parse tree into nodes of
  \<^verbatim>\<open>posthog.hogql.ast\<close>. A \<^verbatim>\<open>Constant\<close> holds an arbitrary Python value; the values the
  converter can put there are \<^verbatim>\<open>None\<close>, \<^verbatim>\<open>True\<close>/\<^verbatim>\<open>False\<close>, an \<^verbatim>\<open>int\<close>, a \<^verbatim>\<open>float\<close> and a
  \<^verbatim>\<open>str\<close>. A float is kept as the literal text \<^verbatim>\<open>float\<close> was applied to: its numeric
  value plays no part in the converter.
\<close>

datatype py_float = PyFloat string

datatype py_value = VNone | VBool bool | VInt int | VFloat py_float | VStr string

text \<open>\<^verbatim>\<open>isinstance(v, int)\<close>: in Python \<^verbatim>\<open>bool\<close> is a subclass of \<^verbatim>\<open>int\<close>.\<close>

fun isinstance_int :: "py_value \<Rightarrow> bool" where
  "isinstance_int (VInt n) = True"
| "isinstance_int (VBool b) = True"
| "isinstance_int v = False"

text \<open>
  The exception classes the module raises, each with its message. \<^verbatim>\<open>Exception\<close> stands for
  an instance of the base class itself (\<^verbatim>\<open>raise Exception(...)\<close>).
\<close>

datatype error =
    SyntaxError string
  | NotImplementedError string
  | Exception string
  | ValueError string
  | AttributeError string

datatype BinaryOperationType = Add | Sub | Mult | Div | Mod

datatype CompareOperationType =
  Eq | NotEq | Lt | LtE | Gt | GtE | Like | NotLike | ILike | NotILike | In | NotIn

text \<open>
  Modelled from the spec: the node classes of \<^verbatim>\<open>posthog.hogql.ast\<close> (section 3 of the
  specification), which are not part of the sources at hand. Every class is an \<^verbatim>\<open>Expr\<close>, a
  constructor stores the keyword arguments it is given and every other field is \<^verbatim>\<open>None\<close>.
  Field order: \<^verbatim>\<open>BinaryOperation(left, right, op)\<close>, \<^verbatim>\<open>CompareOperation(left, right, op)\<close>,
  \<^verbatim>\<open>JoinExpr(table, table_final, alias, join_type, join_constraint, join_expr)\<close>,
  \<^verbatim>\<open>SelectQuery(select, select_from, where, prewhere, having, limit, offset)\<close>.
  A chain holds whatever objects the converter puts into the Python list, and \<^verbatim>\<open>limit\<close> and
  \<^verbatim>\<open>offset\<close> hold the Python value taken from the constant.
\<close>

datatype expr =
    Constant py_value
  | FieldAccess string
  | FieldAccessChain "py_value list"
  | Placeholder string
  | BinaryOperation expr expr BinaryOperationType
  | CompareOperation expr expr CompareOperationType
  | And "expr list"
  | Or "expr list"
  | Not_expr expr
  | Call string "expr list"
  | JoinExpr expr "bool option" "string option" "string option" "expr option" "expr option"
  | SelectQuery "expr list" "expr option" "expr option" "expr option" "expr option"
      "py_value option" "py_value option"

text \<open>\<^verbatim>\<open>object.__class__.__name__\<close>\<close>

fun class_name :: "expr \<Rightarrow> string" where
  "class_name (Constant v) = ''Constant''"
| "class_name (FieldAccess f) = ''FieldAccess''"
| "class_name (FieldAccessChain c) = ''FieldAccessChain''"
| "class_name (Placeholder f) = ''Placeholder''"
| "class_name (BinaryOperation l r op) = ''BinaryOperation''"
| "class_name (CompareOperation l r op) = ''CompareOperation''"
| "class_name (And es) = ''And''"
| "class_name (Or es) = ''Or''"
| "class_name (Not_expr e) = ''Not''"
| "class_name (Call n as) = ''Call''"
| "class_name (JoinExpr t f a jt jc je) = ''JoinExpr''"
| "class_name (SelectQuery s f w p h l off) = ''SelectQuery''"

section \<open>Python string helpers\<close>

text \<open>\<^verbatim>\<open>str.lower()\<close> on the ASCII letters an identifier token is made of.\<close>

definition lower_char :: "char \<Rightarrow> char" where
  "lower_char c =
     (let n = (of_char c :: nat) in if 65 \<le> n \<and> n \<le> 90 then char_of (n + 32) else c)"

definition py_lower :: "string \<Rightarrow> string" where
  "py_lower s = map lower_char s"

text \<open>\<^verbatim>\<open>sep.join(tokens)\<close>\<close>

fun py_join :: "string \<Rightarrow> string list \<Rightarrow> string" where
  "py_join sep [] = []"
| "py_join sep [t] = t"
| "py_join sep (t # ts) = t @ sep @ py_join sep ts"

definition is_digit :: "char \<Rightarrow> bool" where
  "is_digit c = (let n = (of_char c :: nat) in 48 \<le> n \<and> n \<le> 57)"

definition digits_value :: "string \<Rightarrow> nat" where
  "digits_value ds = foldl (\<lambda>a c. 10 * a + (of_char c - 48)) 0 ds"

fun strip_sign :: "string \<Rightarrow> bool \<times> string" where
  "strip_sign [] = (False, [])"
| "strip_sign (c # cs) =
     (if c = CHR ''-'' then (True, cs) else if c = CHR ''+'' then (False, cs) else (False, c # cs))"

text \<open>
  \<^verbatim>\<open>int(text)\<close> on the text of a number token: an optional sign and decimal digits;
  anything else (a hexadecimal literal, \<^verbatim>\<open>inf\<close>, \<^verbatim>\<open>nan\<close>, an exponent) is a \<^verbatim>\<open>ValueError\<close>,
  here \<open>None\<close>. A token holds neither white space nor underscores, which \<^verbatim>\<open>int\<close> would
  also accept.
\<close>

definition py_int :: "string \<Rightarrow> int option" where
  "py_int s =
     (case strip_sign s of (neg, ds) \<Rightarrow>
        if ds \<noteq> [] \<and> list_all is_digit ds
        then Some (if neg then - int (digits_value ds) else int (digits_value ds))
        else None)"

text \<open>
  \<^verbatim>\<open>float(text)\<close> on the text of a number token: an optional sign, digits with an optional
  point (at least one digit on either side) and an optional exponent, or \<^verbatim>\<open>inf\<close>,
  \<^verbatim>\<open>infinity\<close>, \<^verbatim>\<open>nan\<close>; anything else is a \<^verbatim>\<open>ValueError\<close>, here \<open>None\<close>.
\<close>

definition is_exponent :: "string \<Rightarrow> bool" where
  "is_exponent s = (case strip_sign s of (neg, ds) \<Rightarrow> ds \<noteq> [] \<and> list_all is_digit ds)"

definition is_mantissa :: "string \<Rightarrow> bool" where
  "is_mantissa s =
     (let a = takeWhile is_digit s; r = dropWhile is_digit s in
      case r of
        [] \<Rightarrow> a \<noteq> []
      | c # b \<Rightarrow> c = CHR ''.'' \<and> list_all is_digit b \<and> (a \<noteq> [] \<or> b \<noteq> []))"

definition is_e :: "char \<Rightarrow> bool" where
  "is_e c = (c = CHR ''e'' \<or> c = CHR ''E'')"

definition py_float :: "string \<Rightarrow> py_float option" where
  "py_float s =
     (case strip_sign s of (neg, body) \<Rightarrow>
        let m = takeWhile (\<lambda>c. \<not> is_e c) body; x = dropWhile (\<lambda>c. \<not> is_e c) body in
        if py_lower body \<in> set [''inf'', ''infinity'', ''nan''] then Some (PyFloat s)
        else if is_mantissa m \<and> (x = [] \<or> is_exponent (tl x)) then Some (PyFloat s)
        else None)"

section \<open>The parse tree\<close>

text \<open>
  The parse tree is what the generated ANTLR parser hands to the converter: one
  constructor for each production (context class) the converter visits, holding the
  children and tokens the converter reads from it. The generated parser is not part of the
  sources at hand, so the shape of each context is read off the accessors the converter calls
  (\<^verbatim>\<open>ctx.columnExpr(0)\<close>, \<^verbatim>\<open>ctx.NOT()\<close>, \<^verbatim>\<open>ctx.getText()\<close>, ...). An optional child is an
  \<open>option\<close>, a repeated child a list, a token that is only tested for presence a \<open>bool\<close>.
\<close>

text \<open>
  \<^verbatim>\<open>IdentifierContext\<close>: either a template string \<^verbatim>\<open>{name}\<close> (\<^verbatim>\<open>ctx.templateString()\<close> is set)
  or any other identifier; both carry their source text.
\<close>

datatype identifier_ctx = Identifier string | IdentifierTemplateString string

fun identifier_getText :: "identifier_ctx \<Rightarrow> string" where
  "identifier_getText (Identifier t) = t"
| "identifier_getText (IdentifierTemplateString t) = t"

text \<open>\<^verbatim>\<open>TableIdentifierContext\<close>: \<^verbatim>\<open>(databaseIdentifier DOT)? identifier\<close>\<close>

datatype table_identifier_ctx = TableIdentifier "identifier_ctx option" identifier_ctx

text \<open>\<^verbatim>\<open>NestedIdentifierContext\<close>: one identifier, then any further ones, separated by dots.\<close>

datatype nested_identifier_ctx = NestedIdentifier identifier_ctx "identifier_ctx list"

text \<open>\<^verbatim>\<open>ColumnIdentifierContext\<close>: \<^verbatim>\<open>(tableIdentifier DOT)? nestedIdentifier\<close>\<close>

datatype column_identifier_ctx =
  ColumnIdentifier "table_identifier_ctx option" nested_identifier_ctx

fun table_identifier_getText :: "table_identifier_ctx \<Rightarrow> string" where
  "table_identifier_getText (TableIdentifier None i) = identifier_getText i"
| "table_identifier_getText (TableIdentifier (Some d) i) =
     identifier_getText d @ ''.'' @ identifier_getText i"

fun nested_identifier_getText :: "nested_identifier_ctx \<Rightarrow> string" where
  "nested_identifier_getText (NestedIdentifier i is) =
     py_join ''.'' (map identifier_getText (i # is))"

fun column_identifier_getText :: "column_identifier_ctx \<Rightarrow> string" where
  "column_identifier_getText (ColumnIdentifier None n) = nested_identifier_getText n"
| "column_identifier_getText (ColumnIdentifier (Some t) n) =
     table_identifier_getText t @ ''.'' @ nested_identifier_getText n"

text \<open>\<^verbatim>\<open>LiteralContext\<close>: \<^verbatim>\<open>NULL\<close>, a string literal, or a number literal, with its text.\<close>

datatype literal_ctx = LiteralNull | LiteralString string | LiteralNumber string

text \<open>
  The operator tokens of the three precedence productions. \<^verbatim>\<open>ColumnExprPrecedence3\<close>
  carries, beside its operator, whether \<^verbatim>\<open>NOT\<close> and \<^verbatim>\<open>GLOBAL\<close> are present.
\<close>

datatype precedence1_operator = ASTERISK | SLASH | PERCENT

datatype precedence2_operator = PLUS | DASH | CONCAT

datatype precedence3_operator =
  EQ_DOUBLE | EQ_SINGLE | NOT_EQ | LE | GE | LT | GT | IN | LIKE | ILIKE

text \<open>
  The column expression productions whose visitor method does nothing but raise
  \<^verbatim>\<open>NotImplementedError\<close>; their children are never visited. \<^verbatim>\<open>ColumnLambdaExpr\<close> is the
  other alternative of a function argument (\<^verbatim>\<open>columnArgExpr\<close>), listed here because
  \<^verbatim>\<open>visitColumnArgExpr\<close> visits whichever child it has.
\<close>

datatype unsupported_column_expr =
    ColumnExprTernaryOp | ColumnExprAlias | ColumnExprExtract | ColumnExprNegate
  | ColumnExprArray | ColumnExprSubstring | ColumnExprCast | ColumnExprInterval
  | ColumnExprWinFunctionTarget | ColumnExprTrim | ColumnExprTuple | ColumnExprBetween
  | ColumnExprTimestamp | ColumnExprTupleAccess | ColumnExprCase | ColumnExprDate
  | ColumnExprWinFunction | ColumnLambdaExpr

fun unsupported_node :: "unsupported_column_expr \<Rightarrow> string" where
  "unsupported_node ColumnExprTernaryOp = ''Unsupported node: ColumnExprTernaryOp''"
| "unsupported_node ColumnExprAlias = ''Unsupported node: ColumnExprAliasContext''"
| "unsupported_node ColumnExprExtract = ''Unsupported node: ColumnExprExtract''"
| "unsupported_node ColumnExprNegate = ''Unsupported node: ColumnExprNegate''"
| "unsupported_node ColumnExprArray = ''Unsupported node: ColumnExprArray''"
| "unsupported_node ColumnExprSubstring = ''Unsupported node: ColumnExprSubstring''"
| "unsupported_node ColumnExprCast = ''Unsupported node: ColumnExprCast''"
| "unsupported_node ColumnExprInterval = ''Unsupported node: ColumnExprInterval''"
| "unsupported_node ColumnExprWinFunctionTarget =
     ''Unsupported node: ColumnExprWinFunctionTarget''"
| "unsupported_node ColumnExprTrim = ''Unsupported node: ColumnExprTrim''"
| "unsupported_node ColumnExprTuple = ''Unsupported node: ColumnExprTuple''"
| "unsupported_node ColumnExprBetween = ''Unsupported node: ColumnExprBetween''"
| "unsupported_node ColumnExprTimestamp = ''Unsupported node: ColumnExprTimestamp''"
| "unsupported_node ColumnExprTupleAccess = ''Unsupported node: ColumnExprTupleAccess''"
| "unsupported_node ColumnExprCase = ''Unsupported node: ColumnExprCase''"
| "unsupported_node ColumnExprDate = ''Unsupported node: ColumnExprDate''"
| "unsupported_node ColumnExprWinFunction = ''Unsupported node: ColumnExprWinFunction''"
| "unsupported_node ColumnLambdaExpr = ''Unsupported node: ColumnLambdaExpr''"

text \<open>
  \<^verbatim>\<open>JoinOpContext\<close>: the tokens each visitor method tests, in the order it tests them.
  \<^verbatim>\<open>JoinOpInner\<close>: LEFT, ALL, ANTI, ANY, ASOF. \<^verbatim>\<open>JoinOpLeftRight\<close>: LEFT, RIGHT, OUTER, SEMI,
  ALL, ANTI, ANY, ASOF. \<^verbatim>\<open>JoinOpFull\<close>: LEFT, OUTER, ALL, ANY.
\<close>

datatype join_op_ctx =
    JoinOpInner bool bool bool bool bool
  | JoinOpLeftRight bool bool bool bool bool bool bool bool
  | JoinOpFull bool bool bool bool
  | JoinOpCross

text \<open>
  The clauses of a \<^verbatim>\<open>SelectStmtContext\<close> that the converter only tests for presence.
\<close>

record unsupported_clauses =
  withClause :: bool
  topClause :: bool
  arrayJoinClause :: bool
  windowClause :: bool
  groupByClause :: bool
  orderByClause :: bool
  limitByClause :: bool
  settingsClause :: bool

text \<open>
  The productions that contain one another. An optional list that is absent is the empty
  list (the converter takes \<^verbatim>\<open>[]\<close> for it).
  \<^item> \<^verbatim>\<open>ColumnExprPrecedence1/2/3\<close>: left, operator, right.
  \<^item> \<^verbatim>\<open>ColumnExprIsNull\<close>: the operand and whether \<^verbatim>\<open>NOT\<close> is present.
  \<^item> \<^verbatim>\<open>ColumnExprFunction\<close>: the identifier's text, whether the first (parametric)
    \<^verbatim>\<open>columnExprList\<close> is present, and the children of the \<^verbatim>\<open>columnArgList\<close>.
  \<^item> \<^verbatim>\<open>SelectStmt\<close>: \<^verbatim>\<open>columnExprList\<close>, \<^verbatim>\<open>fromClause\<close> (its \<^verbatim>\<open>joinExpr\<close>), \<^verbatim>\<open>whereClause\<close>,
    \<^verbatim>\<open>prewhereClause\<close>, \<^verbatim>\<open>havingClause\<close> (their \<^verbatim>\<open>columnExpr\<close>), the \<^verbatim>\<open>columnExpr\<close> children
    of \<^verbatim>\<open>limitClause().limitExpr()\<close> (none when there is no limit clause, else one or two)
    and the presence of the other clauses.
  \<^item> \<^verbatim>\<open>JoinExprOp\<close>: \<^verbatim>\<open>GLOBAL\<close>, \<^verbatim>\<open>LOCAL\<close>, \<^verbatim>\<open>joinExpr(0)\<close>, \<^verbatim>\<open>joinExpr(1)\<close>, \<^verbatim>\<open>joinOp\<close>, and
    of its \<^verbatim>\<open>joinConstraintClause\<close> the token \<^verbatim>\<open>USING\<close> and the \<^verbatim>\<open>columnExprList\<close>.
  \<^item> \<^verbatim>\<open>JoinExprTable\<close>: whether a \<^verbatim>\<open>sampleClause\<close> is present, \<^verbatim>\<open>tableExpr\<close>, \<^verbatim>\<open>FINAL\<close>.
  \<^item> \<^verbatim>\<open>TableExprAlias\<close>: \<^verbatim>\<open>tableExpr\<close> and the text of \<^verbatim>\<open>ctx.alias() or ctx.identifier()\<close>.
\<close>

datatype column_expr_ctx =
    ColumnExprUnsupported unsupported_column_expr
  | ColumnExprSubquery select_union_stmt_ctx
  | ColumnExprLiteral literal_ctx
  | ColumnExprPrecedence1 column_expr_ctx precedence1_operator column_expr_ctx
  | ColumnExprPrecedence2 column_expr_ctx precedence2_operator column_expr_ctx
  | ColumnExprPrecedence3 column_expr_ctx precedence3_operator bool bool column_expr_ctx
  | ColumnExprIsNull column_expr_ctx bool
  | ColumnExprArrayAccess column_expr_ctx column_expr_ctx
  | ColumnExprParens column_expr_ctx
  | ColumnExprAnd column_expr_ctx column_expr_ctx
  | ColumnExprOr column_expr_ctx column_expr_ctx
  | ColumnExprNot column_expr_ctx
  | ColumnExprIdentifier column_identifier_ctx
  | ColumnExprFunction string bool "column_expr_ctx list"
  | ColumnExprAsterisk
and columns_expr_ctx =
    ColumnsExprAsterisk
  | ColumnsExprSubquery select_union_stmt_ctx
  | ColumnsExprColumn column_expr_ctx
and select_union_stmt_ctx =
    SelectUnionStmt "select_stmt_with_parens_ctx list"
and select_stmt_with_parens_ctx =
    SelectStmtWithParens_Stmt select_stmt_ctx
  | SelectStmtWithParens_Union select_union_stmt_ctx
and select_stmt_ctx =
    SelectStmt "columns_expr_ctx list" "join_expr_ctx option"
      "column_expr_ctx option" "column_expr_ctx option" "column_expr_ctx option"
      "column_expr_ctx list" unsupported_clauses
and join_expr_ctx =
    JoinExprOp bool bool join_expr_ctx join_expr_ctx "join_op_ctx option"
      bool "columns_expr_ctx list"
  | JoinExprTable bool table_expr_ctx bool
  | JoinExprParens join_expr_ctx
  | JoinExprCrossOp
and table_expr_ctx =
    TableExprIdentifier table_identifier_ctx
  | TableExprSubquery select_union_stmt_ctx
  | TableExprAlias table_expr_ctx string
  | TableExprFunction

text \<open>\<^verbatim>\<open>SelectQueryContext\<close>: \<^verbatim>\<open>ctx.selectUnionStmt() or ctx.selectStmt()\<close>\<close>

datatype select_query_ctx =
    SelectQuery_Union select_union_stmt_ctx
  | SelectQuery_Stmt select_stmt_ctx

section \<open>The converter\<close>

text \<open>
  \<^verbatim>\<open>parse_string_literal\<close> (of \<^verbatim>\<open>posthog.hogql.parser_utils\<close>) is not part of the sources at
  hand: the converter takes it as a parameter \<open>psl\<close>, a function from the text of the
  context it is applied to, to the unescaped string or the error it raises.
\<close>

type_synonym parse_string_literal = "string \<Rightarrow> error + string"

text \<open>\<^verbatim>\<open>visitTemplateString\<close> and \<^verbatim>\<open>visitIdentifier\<close>\<close>

fun visitIdentifier :: "parse_string_literal \<Rightarrow> identifier_ctx \<Rightarrow> error + expr" where
  "visitIdentifier psl (IdentifierTemplateString t) =
     (case psl t of Inl e \<Rightarrow> Inl e | Inr s \<Rightarrow> Inr (Placeholder s))"
| "visitIdentifier psl (Identifier t) = Inr (FieldAccess t)"

fun visitIdentifiers :: "parse_string_literal \<Rightarrow> identifier_ctx list \<Rightarrow> error + expr list" where
  "visitIdentifiers psl [] = Inr []"
| "visitIdentifiers psl (i # is) =
     (case visitIdentifier psl i of Inl e \<Rightarrow> Inl e
      | Inr x \<Rightarrow> (case visitIdentifiers psl is of Inl e \<Rightarrow> Inl e | Inr xs \<Rightarrow> Inr (x # xs)))"

text \<open>\<^verbatim>\<open>identifier.field\<close>: both classes \<^verbatim>\<open>visitIdentifier\<close> returns have the attribute.\<close>

fun field_of :: "expr \<Rightarrow> error + string" where
  "field_of (FieldAccess f) = Inr f"
| "field_of (Placeholder f) = Inr f"
| "field_of e = Inl (AttributeError ''field'')"

fun fields_of :: "expr list \<Rightarrow> error + py_value list" where
  "fields_of [] = Inr []"
| "fields_of (x # xs) =
     (case field_of x of Inl e \<Rightarrow> Inl e
      | Inr f \<Rightarrow> (case fields_of xs of Inl e \<Rightarrow> Inl e | Inr fs \<Rightarrow> Inr (VStr f # fs)))"

fun visitNestedIdentifier :: "parse_string_literal \<Rightarrow> nested_identifier_ctx \<Rightarrow> error + expr" where
  "visitNestedIdentifier psl (NestedIdentifier i is) =
     (case visitIdentifiers psl (i # is) of Inl e \<Rightarrow> Inl e
      | Inr identifiers \<Rightarrow>
          if length identifiers = 1 then Inr (hd identifiers)
          else (case fields_of identifiers of Inl e \<Rightarrow> Inl e
                | Inr chain \<Rightarrow> Inr (FieldAccessChain chain)))"

fun visitTableIdentifier :: "table_identifier_ctx \<Rightarrow> expr" where
  "visitTableIdentifier (TableIdentifier (Some d) i) =
     FieldAccessChain [VStr (identifier_getText d), VStr (identifier_getText i)]"
| "visitTableIdentifier (TableIdentifier None i) = FieldAccess (identifier_getText i)"

text \<open>
  The two \<^verbatim>\<open>isinstance\<close> cascades of \<^verbatim>\<open>visitColumnIdentifier\<close> that fill \<^verbatim>\<open>chain\<close>.
\<close>

fun chain_part :: "string \<Rightarrow> expr \<Rightarrow> error + py_value list" where
  "chain_part text (FieldAccess f) = Inr [VStr f]"
| "chain_part text (FieldAccessChain c) = Inr c"
| "chain_part text e = Inl (NotImplementedError (''Unsupported property access: '' @ text))"

fun visitColumnIdentifier :: "parse_string_literal \<Rightarrow> column_identifier_ctx \<Rightarrow> error + expr" where
  "visitColumnIdentifier psl (ColumnIdentifier tbl n) =
     (case visitNestedIdentifier psl n of Inl e \<Rightarrow> Inl e
      | Inr nested \<Rightarrow>
         (case tbl of
            None \<Rightarrow>
              (case nested of
                 FieldAccess f \<Rightarrow>
                   (let text = py_lower (column_identifier_getText (ColumnIdentifier tbl n)) in
                    if text = ''true'' then Inr (Constant (VBool True))
                    else if text = ''false'' then Inr (Constant (VBool False))
                    else Inr nested)
               | _ \<Rightarrow> Inr nested)
          | Some t \<Rightarrow>
              (let text = column_identifier_getText (ColumnIdentifier tbl n) in
               case chain_part text (visitTableIdentifier t) of Inl e \<Rightarrow> Inl e
               | Inr c1 \<Rightarrow>
                  (case chain_part text nested of Inl e \<Rightarrow> Inl e
                   | Inr c2 \<Rightarrow> Inr (FieldAccessChain (c1 @ c2))))))"

text \<open>\<^verbatim>\<open>visitNumberLiteral\<close>; a \<^verbatim>\<open>ValueError\<close> carries the text that did not convert.\<close>

definition visitNumberLiteral :: "string \<Rightarrow> error + expr" where
  "visitNumberLiteral text =
     (if CHR ''.'' \<in> set text
      then (case py_float text of None \<Rightarrow> Inl (ValueError text)
            | Some x \<Rightarrow> Inr (Constant (VFloat x)))
      else (case py_int text of None \<Rightarrow> Inl (ValueError text)
            | Some n \<Rightarrow> Inr (Constant (VInt n))))"

fun visitLiteral :: "parse_string_literal \<Rightarrow> literal_ctx \<Rightarrow> error + expr" where
  "visitLiteral psl LiteralNull = Inr (Constant VNone)"
| "visitLiteral psl (LiteralString t) =
     (case psl t of Inl e \<Rightarrow> Inl e | Inr text \<Rightarrow> Inr (Constant (VStr text)))"
| "visitLiteral psl (LiteralNumber t) = visitNumberLiteral t"

text \<open>
  The operator cascades of the three precedence productions. A production has no operator
  token beside those of its type, so the last \<^verbatim>\<open>else\<close> of each cascade, which raises
  \<^verbatim>\<open>NotImplementedError\<close>, is never reached.
\<close>

fun precedence1_op :: "precedence1_operator \<Rightarrow> BinaryOperationType" where
  "precedence1_op SLASH = Div"
| "precedence1_op ASTERISK = Mult"
| "precedence1_op PERCENT = Mod"

fun precedence2_op :: "precedence2_operator \<Rightarrow> error + BinaryOperationType" where
  "precedence2_op PLUS = Inr Add"
| "precedence2_op DASH = Inr Sub"
| "precedence2_op CONCAT =
     Inl (NotImplementedError ''Yet unsupported text concat operation: ||'')"

text \<open>Arguments: the operator, \<^verbatim>\<open>ctx.NOT()\<close>, \<^verbatim>\<open>ctx.GLOBAL()\<close>.\<close>

fun precedence3_op :: "precedence3_operator \<Rightarrow> bool \<Rightarrow> bool \<Rightarrow> error + CompareOperationType" where
  "precedence3_op EQ_SINGLE n g = Inr Eq"
| "precedence3_op EQ_DOUBLE n g = Inr Eq"
| "precedence3_op NOT_EQ n g = Inr NotEq"
| "precedence3_op LT n g = Inr Lt"
| "precedence3_op LE n g = Inr LtE"
| "precedence3_op GT n g = Inr Gt"
| "precedence3_op GE n g = Inr GtE"
| "precedence3_op LIKE n g = Inr (if n then NotLike else Like)"
| "precedence3_op ILIKE n g = Inr (if n then NotILike else ILike)"
| "precedence3_op IN n g =
     (if g then Inl (NotImplementedError ''Unsupported node: IN GLOBAL'')
      else Inr (if n then NotIn else In))"

text \<open>
  The tail of \<^verbatim>\<open>visitColumnExprArrayAccess\<close>, once \<^verbatim>\<open>object\<close> and \<^verbatim>\<open>property\<close> are converted.
\<close>

definition array_access :: "expr \<Rightarrow> expr \<Rightarrow> error + expr" where
  "array_access obj property =
     (case property of
        Constant v \<Rightarrow>
          (case obj of
             FieldAccess f \<Rightarrow> Inr (FieldAccessChain [VStr f, v])
           | FieldAccessChain c \<Rightarrow> Inr (FieldAccessChain (c @ [v]))
           | _ \<Rightarrow>
               Inl (NotImplementedError
                 (''Unsupported combination for ColumnExprArrayAccess: '' @ class_name obj
                    @ ''[Constant]'')))
      | _ \<Rightarrow> Inl (NotImplementedError ''Array access must be performed with a constant.''))"

text \<open>The operand lists of \<^verbatim>\<open>visitColumnExprAnd\<close> and \<^verbatim>\<open>visitColumnExprOr\<close>.\<close>

fun and_array :: "expr \<Rightarrow> expr list" where
  "and_array (And exprs) = exprs"
| "and_array e = [e]"

fun or_array :: "expr \<Rightarrow> expr list" where
  "or_array (Or exprs) = exprs"
| "or_array e = [e]"

text \<open>The join operators: the tokens that are present, joined by a blank.\<close>

definition tokens_present :: "(bool \<times> string) list \<Rightarrow> string list" where
  "tokens_present ts = map snd (filter fst ts)"

fun visitJoinOp :: "join_op_ctx \<Rightarrow> error + string" where
  "visitJoinOp (JoinOpInner left all anti any asof) =
     Inr (py_join '' '' (tokens_present
       [(left, ''INNER''), (all, ''ALL''), (anti, ''ANTI''), (any, ''ANY''), (asof, ''ASOF'')]))"
| "visitJoinOp (JoinOpLeftRight left right outer semi all anti any asof) =
     Inr (py_join '' '' (tokens_present
       [(left, ''LEFT''), (right, ''RIGHT''), (outer, ''OUTER''), (semi, ''SEMI''),
        (all, ''ALL''), (anti, ''ANTI''), (any, ''ANY''), (asof, ''ASOF'')]))"
| "visitJoinOp (JoinOpFull left outer all any) =
     Inr (py_join '' '' (tokens_present
       [(left, ''FULL''), (outer, ''OUTER''), (all, ''ALL''), (any, ''ANY'')]))"
| "visitJoinOp JoinOpCross = Inl (NotImplementedError ''Unsupported node: JoinOpCross'')"

fun join_type_of :: "join_op_ctx option \<Rightarrow> error + string" where
  "join_type_of None = Inr ''JOIN''"
| "join_type_of (Some op) =
     (case visitJoinOp op of Inl e \<Rightarrow> Inl e | Inr s \<Rightarrow> Inr (s @ '' JOIN''))"

text \<open>
  The loop and the three assignments that end \<^verbatim>\<open>visitJoinExprOp\<close>: walk from \<^verbatim>\<open>join1\<close> along
  \<^verbatim>\<open>join_expr\<close> to the first node where it is unset, and set \<^verbatim>\<open>join_expr\<close>, \<^verbatim>\<open>join_constraint\<close>
  and \<^verbatim>\<open>join_type\<close> there. The nodes of \<^verbatim>\<open>join1\<close> and \<^verbatim>\<open>join2\<close> are fresh objects of two
  separate visits, so the mutated chain headed by \<^verbatim>\<open>join1\<close> is the rebuilt one. Reading
  \<^verbatim>\<open>join_expr\<close> of an object that is no \<^verbatim>\<open>JoinExpr\<close> is an \<^verbatim>\<open>AttributeError\<close>.
\<close>

fun attach_join :: "expr \<Rightarrow> expr \<Rightarrow> expr \<Rightarrow> string \<Rightarrow> error + expr" where
  "attach_join (JoinExpr t f a jt jc None) join2 join_constraint join_type =
     Inr (JoinExpr t f a (Some join_type) (Some join_constraint) (Some join2))"
| "attach_join (JoinExpr t f a jt jc (Some nxt)) join2 join_constraint join_type =
     (case attach_join nxt join2 join_constraint join_type of Inl e \<Rightarrow> Inl e
      | Inr nxt' \<Rightarrow> Inr (JoinExpr t f a jt jc (Some nxt')))"
| "attach_join e join2 join_constraint join_type = Inl (AttributeError ''join_expr'')"

text \<open>The end of \<^verbatim>\<open>visitJoinExprTable\<close>.\<close>

fun join_expr_table :: "expr \<Rightarrow> bool option \<Rightarrow> expr" where
  "join_expr_table (JoinExpr t f a jt jc je) table_final = JoinExpr t table_final a jt jc je"
| "join_expr_table tbl table_final = JoinExpr tbl table_final None None None None"

text \<open>
  The check of \<^verbatim>\<open>visitSelectStmt\<close> on a converted limit or offset expression; \<open>msg\<close> is the
  message of the exception.
\<close>

fun integer_constant :: "string \<Rightarrow> expr \<Rightarrow> error + py_value option" where
  "integer_constant msg (Constant v) =
     (if isinstance_int v then Inr (Some v) else Inl (Exception msg))"
| "integer_constant msg e = Inl (Exception msg)"

text \<open>The eight tests on unsupported clauses, in the order of the source.\<close>

definition unsupported_clause :: "unsupported_clauses \<Rightarrow> error option" where
  "unsupported_clause c =
     (if withClause c then Some (NotImplementedError ''Unsupported: SelectStmt.withClause()'')
      else if topClause c
        then Some (NotImplementedError ''Unsupported: SelectStmt.topClause()'')
      else if arrayJoinClause c
        then Some (NotImplementedError ''Unsupported: SelectStmt.arrayJoinClause()'')
      else if windowClause c
        then Some (NotImplementedError ''Unsupported: SelectStmt.windowClause()'')
      else if groupByClause c
        then Some (NotImplementedError ''Unsupported: SelectStmt.groupByClause()'')
      else if orderByClause c
        then Some (NotImplementedError ''Unsupported: SelectStmt.orderByClause()'')
      else if limitByClause c
        then Some (NotImplementedError ''Unsupported: SelectStmt.limitByClause()'')
      else if settingsClause c
        then Some (NotImplementedError ''Unsupported: SelectStmt.settingsClause()'')
      else None)"

text \<open>
  A list comprehension \<^verbatim>\<open>[self.visit(c) for c in cs]\<close> and an optional visit
  \<^verbatim>\<open>self.visit(c) if c else None\<close> raise the first exception met, in order.
\<close>

fun sequence :: "(error + 'a) list \<Rightarrow> error + 'a list" where
  "sequence [] = Inr []"
| "sequence (r # rs) =
     (case r of Inl e \<Rightarrow> Inl e
      | Inr x \<Rightarrow> (case sequence rs of Inl e \<Rightarrow> Inl e | Inr xs \<Rightarrow> Inr (x # xs)))"

fun optional :: "(error + 'a) option \<Rightarrow> error + 'a option" where
  "optional None = Inr None"
| "optional (Some r) = (case r of Inl e \<Rightarrow> Inl e | Inr x \<Rightarrow> Inr (Some x))"

text \<open>
  \<^verbatim>\<open>visitJoinConstraintClause\<close>, given \<^verbatim>\<open>USING\<close> and the outcome of visiting the
  \<^verbatim>\<open>columnExprList\<close>.
\<close>

definition visitJoinConstraintClause :: "bool \<Rightarrow> error + expr list \<Rightarrow> error + expr" where
  "visitJoinConstraintClause using visited =
     (if using then Inl (NotImplementedError ''Unsupported: JOIN ... USING'')
      else (case visited of Inl e \<Rightarrow> Inl e
            | Inr column_expr_list \<Rightarrow>
               (case column_expr_list of
                  [x] \<Rightarrow> Inr x
                | _ \<Rightarrow> Inl (NotImplementedError
                           ''Unsupported: JOIN ... ON with multiple expressions''))))"

text \<open>
  The limit and offset of \<^verbatim>\<open>visitSelectStmt\<close>, given the outcomes of visiting
  \<^verbatim>\<open>columnExpr(0)\<close> and \<^verbatim>\<open>columnExpr(1)\<close> of the limit expression, if present. On these
  parse trees a visit returns a node or raises, never \<^verbatim>\<open>None\<close>, so the two tests
  \<^verbatim>\<open>is not None\<close> of the source always pass.
\<close>

fun limit_offset :: "(error + expr) list \<Rightarrow> error + py_value option \<times> py_value option" where
  "limit_offset [] = Inr (None, None)"
| "limit_offset (r0 # rest) =
     (case r0 of Inl e \<Rightarrow> Inl e
      | Inr limit_node \<Rightarrow>
         (case integer_constant ''LIMIT must be an integer'' limit_node of Inl e \<Rightarrow> Inl e
          | Inr limit \<Rightarrow>
             (case rest of
                [] \<Rightarrow> Inr (limit, None)
              | r1 # rs \<Rightarrow>
                 (case r1 of Inl e \<Rightarrow> Inl e
                  | Inr offset_node \<Rightarrow>
                     (case integer_constant ''OFFSET must be an integer'' offset_node of
                        Inl e \<Rightarrow> Inl e
                      | Inr offset \<Rightarrow> Inr (limit, offset))))))"

text \<open>
  The visitor methods of \<^verbatim>\<open>HogQLParseTreeConverter\<close> on the productions that contain one
  another. An exception is the result \<open>Inl\<close>; evaluation order is that of the source.
\<close>

primrec visitColumnExpr :: "parse_string_literal \<Rightarrow> column_expr_ctx \<Rightarrow> error + expr"
and visitColumnsExpr :: "parse_string_literal \<Rightarrow> columns_expr_ctx \<Rightarrow> error + expr"
and visitSelectUnionStmt :: "parse_string_literal \<Rightarrow> select_union_stmt_ctx \<Rightarrow> error + expr"
and visitSelectStmtWithParens ::
  "parse_string_literal \<Rightarrow> select_stmt_with_parens_ctx \<Rightarrow> error + expr"
and visitSelectStmt :: "parse_string_literal \<Rightarrow> select_stmt_ctx \<Rightarrow> error + expr"
and visitJoinExpr :: "parse_string_literal \<Rightarrow> join_expr_ctx \<Rightarrow> error + expr"
and visitTableExpr :: "parse_string_literal \<Rightarrow> table_expr_ctx \<Rightarrow> error + expr"
where
  "visitColumnExpr psl (ColumnExprUnsupported k) = Inl (NotImplementedError (unsupported_node k))"
| "visitColumnExpr psl (ColumnExprSubquery u) = visitSelectUnionStmt psl u"
| "visitColumnExpr psl (ColumnExprLiteral l) = visitLiteral psl l"
| "visitColumnExpr psl (ColumnExprPrecedence1 l operator r) =
     (case visitColumnExpr psl l of Inl e \<Rightarrow> Inl e
      | Inr left \<Rightarrow>
         (case visitColumnExpr psl r of Inl e \<Rightarrow> Inl e
          | Inr right \<Rightarrow> Inr (BinaryOperation left right (precedence1_op operator))))"
| "visitColumnExpr psl (ColumnExprPrecedence2 l operator r) =
     (case precedence2_op operator of Inl e \<Rightarrow> Inl e
      | Inr op \<Rightarrow>
         (case visitColumnExpr psl l of Inl e \<Rightarrow> Inl e
          | Inr left \<Rightarrow>
             (case visitColumnExpr psl r of Inl e \<Rightarrow> Inl e
              | Inr right \<Rightarrow> Inr (BinaryOperation left right op))))"
| "visitColumnExpr psl (ColumnExprPrecedence3 l operator n g r) =
     (case precedence3_op operator n g of Inl e \<Rightarrow> Inl e
      | Inr op \<Rightarrow>
         (case visitColumnExpr psl l of Inl e \<Rightarrow> Inl e
          | Inr left \<Rightarrow>
             (case visitColumnExpr psl r of Inl e \<Rightarrow> Inl e
              | Inr right \<Rightarrow> Inr (CompareOperation left right op))))"
| "visitColumnExpr psl (ColumnExprIsNull c n) =
     (case visitColumnExpr psl c of Inl e \<Rightarrow> Inl e
      | Inr left \<Rightarrow> Inr (CompareOperation left (Constant VNone) (if n then NotEq else Eq)))"
| "visitColumnExpr psl (ColumnExprArrayAccess c0 c1) =
     (case visitColumnExpr psl c0 of Inl e \<Rightarrow> Inl e
      | Inr obj \<Rightarrow>
         (case visitColumnExpr psl c1 of Inl e \<Rightarrow> Inl e
          | Inr property \<Rightarrow> array_access obj property))"
| "visitColumnExpr psl (ColumnExprParens c) = visitColumnExpr psl c"
| "visitColumnExpr psl (ColumnExprAnd c0 c1) =
     (case visitColumnExpr psl c0 of Inl e \<Rightarrow> Inl e
      | Inr left \<Rightarrow>
         (case visitColumnExpr psl c1 of Inl e \<Rightarrow> Inl e
          | Inr right \<Rightarrow> Inr (And (and_array left @ and_array right))))"
| "visitColumnExpr psl (ColumnExprOr c0 c1) =
     (case visitColumnExpr psl c0 of Inl e \<Rightarrow> Inl e
      | Inr left \<Rightarrow>
         (case visitColumnExpr psl c1 of Inl e \<Rightarrow> Inl e
          | Inr right \<Rightarrow> Inr (Or (or_array left @ or_array right))))"
| "visitColumnExpr psl (ColumnExprNot c) =
     (case visitColumnExpr psl c of Inl e \<Rightarrow> Inl e | Inr x \<Rightarrow> Inr (Not_expr x))"
| "visitColumnExpr psl (ColumnExprIdentifier i) = visitColumnIdentifier psl i"
| "visitColumnExpr psl (ColumnExprFunction name columnExprList args) =
     (if columnExprList
      then Inl (NotImplementedError ''Functions that return functions are not supported'')
      else (case sequence (map (visitColumnExpr psl) args) of Inl e \<Rightarrow> Inl e
            | Inr xs \<Rightarrow> Inr (Call name xs)))"
| "visitColumnExpr psl ColumnExprAsterisk = Inr (FieldAccess ''*'')"
| "visitColumnsExpr psl ColumnsExprAsterisk = Inr (FieldAccess ''*'')"
| "visitColumnsExpr psl (ColumnsExprSubquery u) = visitSelectUnionStmt psl u"
| "visitColumnsExpr psl (ColumnsExprColumn c) = visitColumnExpr psl c"
| "visitSelectUnionStmt psl (SelectUnionStmt selects) =
     (case map (visitSelectStmtWithParens psl) selects of
        [r] \<Rightarrow> r
      | _ \<Rightarrow> Inl (NotImplementedError ''Unsupported: UNION ALL''))"
| "visitSelectStmtWithParens psl (SelectStmtWithParens_Stmt s) = visitSelectStmt psl s"
| "visitSelectStmtWithParens psl (SelectStmtWithParens_Union u) = visitSelectUnionStmt psl u"
| "visitSelectStmt psl (SelectStmt columnExprList fromClause whereClause prewhereClause
       havingClause limitExpr others) =
     (case sequence (map (visitColumnsExpr psl) columnExprList) of Inl e \<Rightarrow> Inl e
      | Inr select \<Rightarrow>
     (case optional (map_option (visitJoinExpr psl) fromClause) of Inl e \<Rightarrow> Inl e
      | Inr select_from \<Rightarrow>
     (case optional (map_option (visitColumnExpr psl) whereClause) of Inl e \<Rightarrow> Inl e
      | Inr where \<Rightarrow>
     (case optional (map_option (visitColumnExpr psl) prewhereClause) of Inl e \<Rightarrow> Inl e
      | Inr prewhere \<Rightarrow>
     (case optional (map_option (visitColumnExpr psl) havingClause) of Inl e \<Rightarrow> Inl e
      | Inr having \<Rightarrow>
     (case limit_offset (map (visitColumnExpr psl) limitExpr) of Inl e \<Rightarrow> Inl e
      | Inr (limit, offset) \<Rightarrow>
         (case unsupported_clause others of
            Some e \<Rightarrow> Inl e
          | None \<Rightarrow>
              Inr (SelectQuery select select_from where prewhere having limit offset))))))))"
| "visitJoinExpr psl (JoinExprOp global local j0 j1 joinOp using columnExprList) =
     (if global then Inl (NotImplementedError ''Unsupported: GLOBAL JOIN'')
      else if local then Inl (NotImplementedError ''Unsupported: LOCAL JOIN'')
      else
       (case visitJoinExpr psl j0 of Inl e \<Rightarrow> Inl e
        | Inr join1 \<Rightarrow>
       (case visitJoinExpr psl j1 of Inl e \<Rightarrow> Inl e
        | Inr join2 \<Rightarrow>
       (case join_type_of joinOp of Inl e \<Rightarrow> Inl e
        | Inr join_type \<Rightarrow>
       (case visitJoinConstraintClause using
               (sequence (map (visitColumnsExpr psl) columnExprList)) of Inl e \<Rightarrow> Inl e
        | Inr join_constraint \<Rightarrow> attach_join join1 join2 join_constraint join_type)))))"
| "visitJoinExpr psl (JoinExprTable sampleClause tableExpr final) =
     (if sampleClause
      then Inl (NotImplementedError ''Unsupported: SAMPLE (JoinExprTable.sampleClause)'')
      else (case visitTableExpr psl tableExpr of Inl e \<Rightarrow> Inl e
            | Inr tbl \<Rightarrow> Inr (join_expr_table tbl (if final then Some True else None))))"
| "visitJoinExpr psl (JoinExprParens j) = visitJoinExpr psl j"
| "visitJoinExpr psl JoinExprCrossOp =
     Inl (NotImplementedError ''Unsupported node: JoinExprCrossOp'')"
| "visitTableExpr psl (TableExprIdentifier t) = Inr (visitTableIdentifier t)"
| "visitTableExpr psl (TableExprSubquery u) = visitSelectUnionStmt psl u"
| "visitTableExpr psl (TableExprAlias t alias) =
     (case visitTableExpr psl t of Inl e \<Rightarrow> Inl e
      | Inr tbl \<Rightarrow> Inr (JoinExpr tbl None (Some alias) None None None))"
| "visitTableExpr psl TableExprFunction =
     Inl (NotImplementedError ''Unsupported node: TableExprFunction'')"

fun visitSelectQuery :: "parse_string_literal \<Rightarrow> select_query_ctx \<Rightarrow> error + expr" where
  "visitSelectQuery psl (SelectQuery_Union u) = visitSelectUnionStmt psl u"
| "visitSelectQuery psl (SelectQuery_Stmt s) = visitSelectStmt psl s"

section \<open>Entry points\<close>





section \<open>Shapes of converted trees\<close>







text \<open>
  A tree is flattened when no \<^verbatim>\<open>And\<close> in it has an \<^verbatim>\<open>And\<close> among its \<^verbatim>\<open>exprs\<close> and no \<^verbatim>\<open>Or\<close>
  has an \<^verbatim>\<open>Or\<close> among its \<^verbatim>\<open>exprs\<close>.
\<close>

fun is_And :: "expr \<Rightarrow> bool" where
  "is_And (And es) = True"
| "is_And e = False"

fun is_Or :: "expr \<Rightarrow> bool" where
  "is_Or (Or es) = True"
| "is_Or e = False"

fun flattened :: "expr \<Rightarrow> bool" where
  "flattened (And es) = list_all (\<lambda>e. \<not> is_And e \<and> flattened e) es"
| "flattened (Or es) = list_all (\<lambda>e. \<not> is_Or e \<and> flattened e) es"
| "flattened (Not_expr e) = flattened e"
| "flattened (BinaryOperation l r op) = (flattened l \<and> flattened r)"
| "flattened (CompareOperation l r op) = (flattened l \<and> flattened r)"
| "flattened (Call n as) = list_all flattened as"
| "flattened (JoinExpr t f a jt jc je) =
     (flattened t \<and> (case jc of None \<Rightarrow> True | Some c \<Rightarrow> flattened c)
        \<and> (case je of None \<Rightarrow> True | Some n \<Rightarrow> flattened n))"
| "flattened (SelectQuery s f w p h l off) =
     (list_all flattened s
        \<and> (case f of None \<Rightarrow> True | Some e \<Rightarrow> flattened e)
        \<and> (case w of None \<Rightarrow> True | Some e \<Rightarrow> flattened e)
        \<and> (case p of None \<Rightarrow> True | Some e \<Rightarrow> flattened e)
        \<and> (case h of None \<Rightarrow> True | Some e \<Rightarrow> flattened e))"
| "flattened (Constant v) = True"
| "flattened (FieldAccess f) = True"
| "flattened (FieldAccessChain c) = True"
| "flattened (Placeholder f) = True"



text \<open>
  The names of the unsupported clauses that are present, in the order in which
  \<^verbatim>\<open>visitSelectStmt\<close> tests them.
\<close>

definition present_clauses :: "unsupported_clauses \<Rightarrow> string list" where
  "present_clauses c = map snd (filter fst
     [(withClause c, ''withClause''), (topClause c, ''topClause''),
      (arrayJoinClause c, ''arrayJoinClause''), (windowClause c, ''windowClause''),
      (groupByClause c, ''groupByClause''), (orderByClause c, ''orderByClause''),
      (limitByClause c, ''limitByClause''), (settingsClause c, ''settingsClause'')])"

section \<open>Concrete parse trees\<close>

text \<open>
  A function that can stand for \<^verbatim>\<open>parse_string_literal\<close> when the converter is evaluated
  on a concrete tree: it drops the delimiters of the text and unescapes nothing.
\<close>

definition unquote :: "string \<Rightarrow> error + string" where
  "unquote t = (if 2 \<le> length t then Inr (butlast (tl t)) else Inl (ValueError t))"

text \<open>
  The parse trees of an unqualified identifier \<^verbatim>\<open>t\<close>, of a number literal, of a bare table
  in a \<^verbatim>\<open>FROM\<close> clause, of a qualified column \<^verbatim>\<open>t.f\<close>, of the column list of the constraint
  \<^verbatim>\<open>ON a.id = b.id\<close>, and the absence of every unsupported clause.
\<close>

definition cst_ident :: "string \<Rightarrow> column_expr_ctx" where
  "cst_ident t =
     ColumnExprIdentifier (ColumnIdentifier None (NestedIdentifier (Identifier t) []))"

definition cst_number :: "string \<Rightarrow> column_expr_ctx" where
  "cst_number t = ColumnExprLiteral (LiteralNumber t)"

definition cst_table :: "string \<Rightarrow> join_expr_ctx" where
  "cst_table t =
     JoinExprTable False (TableExprIdentifier (TableIdentifier None (Identifier t))) False"



definition no_clauses :: unsupported_clauses where
  "no_clauses =
     \<lparr>withClause = False, topClause = False, arrayJoinClause = False, windowClause = False,
      groupByClause = False, orderByClause = False, limitByClause = False,
      settingsClause = False\<rparr>"



section \<open>Lemmas on the converter\<close>

subsection \<open>Join chains\<close>






subsection \<open>Properties that hold for every converted node\<close>

lemma sequence_map_all:
  "sequence (map f xs) = Inr ys \<Longrightarrow> (\<And>x y. x \<in> set xs \<Longrightarrow> f x = Inr y \<Longrightarrow> Q y)
     \<Longrightarrow> list_all Q ys"
proof (induction xs arbitrary: ys)
  case Nil
  then show ?case by simp
next
  case (Cons x xs)
  from Cons.prems(1) obtain y ys' where y: "f x = Inr y" "sequence (map f xs) = Inr ys'"
    "ys = y # ys'"
    by (auto split: sum.splits)
  have "Q y" using Cons.prems(2)[of x y] y(1) by simp
  moreover have "list_all Q ys'" using Cons.IH[OF y(2)] Cons.prems(2) by auto
  ultimately show ?case using y(3) by simp
qed

lemma optional_map_all:
  "optional (map_option f x) = Inr y \<Longrightarrow> (\<And>a b. a \<in> set_option x \<Longrightarrow> f a = Inr b \<Longrightarrow> Q b)
     \<Longrightarrow> (case y of None \<Rightarrow> True | Some b \<Rightarrow> Q b)"
  by (cases x) (auto split: sum.splits)

lemma visitIdentifier_cases:
  "visitIdentifier psl i = Inr e \<Longrightarrow> (\<exists>f. e = FieldAccess f) \<or> (\<exists>f. e = Placeholder f)"
  by (cases i) (auto split: sum.splits)

lemma visitNestedIdentifier_cases:
  assumes "visitNestedIdentifier psl n = Inr e"
  shows "(\<exists>f. e = FieldAccess f) \<or> (\<exists>f. e = Placeholder f) \<or> (\<exists>c. e = FieldAccessChain c)"
proof (cases n)
  case (NestedIdentifier i "is")
  show ?thesis
  proof (cases "visitIdentifiers psl (i # is)")
    case (Inl a)
    then show ?thesis using assms NestedIdentifier by simp
  next
    case (Inr ids)
    then obtain x xs where x: "visitIdentifier psl i = Inr x" "ids = x # xs"
      by (auto split: sum.splits)
    show ?thesis
    proof (cases "length ids = 1")
      case True
      then have "e = x" using assms NestedIdentifier Inr x by simp
      then show ?thesis using visitIdentifier_cases[OF x(1)] by auto
    next
      case False
      then show ?thesis using assms NestedIdentifier Inr by (auto split: sum.splits)
    qed
  qed
qed

lemma visitColumnIdentifier_cases:
  assumes "visitColumnIdentifier psl i = Inr e"
  shows "(\<exists>v. e = Constant v) \<or> (\<exists>f. e = FieldAccess f) \<or> (\<exists>f. e = Placeholder f)
           \<or> (\<exists>c. e = FieldAccessChain c)"
proof (cases i)
  case (ColumnIdentifier tbl n)
  from assms ColumnIdentifier obtain nested where n: "visitNestedIdentifier psl n = Inr nested"
    by (auto split: sum.splits)
  show ?thesis
  proof (cases tbl)
    case None
    then show ?thesis
      using assms ColumnIdentifier n visitNestedIdentifier_cases[OF n]
      by (auto simp: Let_def split: if_splits)
  next
    case (Some t)
    then show ?thesis
      using assms ColumnIdentifier n by (auto simp: Let_def split: sum.splits)
  qed
qed

subsection \<open>Every converted tree is flattened\<close>

lemma visitColumnIdentifier_flattened: "visitColumnIdentifier psl i = Inr e \<Longrightarrow> flattened e"
  using visitColumnIdentifier_cases by fastforce

lemma visitLiteral_cases: "visitLiteral psl l = Inr e \<Longrightarrow> \<exists>v. e = Constant v"
  by (cases l) (auto simp: visitNumberLiteral_def split: sum.splits if_splits option.splits)

lemma array_access_cases: "array_access obj property = Inr e \<Longrightarrow> \<exists>c. e = FieldAccessChain c"
  by (auto simp: array_access_def split: expr.splits)

lemma and_array_flattened:
  "flattened l \<Longrightarrow> list_all (\<lambda>e. \<not> is_And e \<and> flattened e) (and_array l)"
  by (cases l) auto

lemma or_array_flattened:
  "flattened l \<Longrightarrow> list_all (\<lambda>e. \<not> is_Or e \<and> flattened e) (or_array l)"
  by (cases l) auto

lemma attach_join_flattened:
  "attach_join join1 join2 c ty = Inr j \<Longrightarrow> flattened join1 \<Longrightarrow> flattened join2 \<Longrightarrow>
     flattened c \<Longrightarrow> flattened j"
  by (induction join1 join2 c ty arbitrary: j rule: attach_join.induct)
     (auto split: sum.splits)

lemma join_expr_table_flattened: "flattened x \<Longrightarrow> flattened (join_expr_table x tf)"
  by (cases x) auto

lemma visitTableIdentifier_flattened: "flattened (visitTableIdentifier t)"
  by (cases t rule: visitTableIdentifier.cases) auto

lemma visitJoinConstraintClause_flattened:
  "visitJoinConstraintClause u r = Inr c \<Longrightarrow> (\<And>xs. r = Inr xs \<Longrightarrow> list_all flattened xs)
     \<Longrightarrow> flattened c"
  by (auto simp: visitJoinConstraintClause_def split: if_splits sum.splits list.splits)

lemma visit_flattened:
  fixes c :: column_expr_ctx and cs :: columns_expr_ctx and u :: select_union_stmt_ctx
    and w :: select_stmt_with_parens_ctx and s :: select_stmt_ctx and j :: join_expr_ctx
    and t :: table_expr_ctx
  shows "\<forall>e. visitColumnExpr psl c = Inr e \<longrightarrow> flattened e"
    and "\<forall>e. visitColumnsExpr psl cs = Inr e \<longrightarrow> flattened e"
    and "\<forall>e. visitSelectUnionStmt psl u = Inr e \<longrightarrow> flattened e"
    and "\<forall>e. visitSelectStmtWithParens psl w = Inr e \<longrightarrow> flattened e"
    and "\<forall>e. visitSelectStmt psl s = Inr e \<longrightarrow> flattened e"
    and "\<forall>e. visitJoinExpr psl j = Inr e \<longrightarrow> flattened e"
    and "\<forall>e. visitTableExpr psl t = Inr e \<longrightarrow> flattened e"
proof (induction c and cs and u and w and s and j and t)
  case (ColumnExprLiteral x)
  then show ?case using visitLiteral_cases by fastforce
next
  case (ColumnExprArrayAccess x1 x2)
  then show ?case using array_access_cases by (fastforce split: sum.splits)
next
  case (ColumnExprAnd x1 x2)
  then show ?case by (auto split: sum.splits simp: and_array_flattened)
next
  case (ColumnExprOr x1 x2)
  then show ?case by (auto split: sum.splits simp: or_array_flattened)
next
  case (ColumnExprIdentifier x)
  then show ?case by (simp add: visitColumnIdentifier_flattened)
next
  case (ColumnExprFunction x1 x2 x3a)
  show ?case
  proof (intro allI impI)
    fix e assume a: "visitColumnExpr psl (ColumnExprFunction x1 x2 x3a) = Inr e"
    then obtain xs where xs: "sequence (map (visitColumnExpr psl) x3a) = Inr xs" "e = Call x1 xs"
      by (auto split: if_splits sum.splits)
    have "list_all flattened xs"
      using sequence_map_all[OF xs(1)] ColumnExprFunction by blast
    then show "flattened e" using xs(2) by simp
  qed
next
  case (SelectUnionStmt x)
  then show ?case by (auto split: list.splits)
next
  case (SelectStmt x1 x2 x3a x4 x5 x6 x7)
  show ?case
  proof (intro allI impI)
    fix e assume a: "visitSelectStmt psl (SelectStmt x1 x2 x3a x4 x5 x6 x7) = Inr e"
    then obtain sel frm wh pre hav lim off where r:
      "sequence (map (visitColumnsExpr psl) x1) = Inr sel"
      "optional (map_option (visitJoinExpr psl) x2) = Inr frm"
      "optional (map_option (visitColumnExpr psl) x3a) = Inr wh"
      "optional (map_option (visitColumnExpr psl) x4) = Inr pre"
      "optional (map_option (visitColumnExpr psl) x5) = Inr hav"
      "e = SelectQuery sel frm wh pre hav lim off"
      by (auto split: sum.splits prod.splits option.splits)
    have "list_all flattened sel"
      using sequence_map_all[OF r(1)] SelectStmt(1) by blast
    moreover have "case frm of None \<Rightarrow> True | Some b \<Rightarrow> flattened b"
      using optional_map_all[OF r(2)] SelectStmt(2) by blast
    moreover have "case wh of None \<Rightarrow> True | Some b \<Rightarrow> flattened b"
      using optional_map_all[OF r(3)] SelectStmt(3) by blast
    moreover have "case pre of None \<Rightarrow> True | Some b \<Rightarrow> flattened b"
      using optional_map_all[OF r(4)] SelectStmt(4) by blast
    moreover have "case hav of None \<Rightarrow> True | Some b \<Rightarrow> flattened b"
      using optional_map_all[OF r(5)] SelectStmt(5) by blast
    ultimately show "flattened e" using r(6) by simp
  qed
next
  case (JoinExprOp x1 x2 x3a x4 x5 x6 x7)
  show ?case
  proof (intro allI impI)
    fix e assume a: "visitJoinExpr psl (JoinExprOp x1 x2 x3a x4 x5 x6 x7) = Inr e"
    then obtain j1 j2 ty c where v: "visitJoinExpr psl x3a = Inr j1"
      "visitJoinExpr psl x4 = Inr j2"
      "visitJoinConstraintClause x6 (sequence (map (visitColumnsExpr psl) x7)) = Inr c"
      "attach_join j1 j2 c ty = Inr e"
      by (auto split: if_splits sum.splits)
    have f: "flattened j1" "flattened j2" using v JoinExprOp by auto
    have "\<And>xs. sequence (map (visitColumnsExpr psl) x7) = Inr xs \<Longrightarrow> list_all flattened xs"
      using sequence_map_all JoinExprOp(3) by blast
    then have "flattened c" using visitJoinConstraintClause_flattened[OF v(3)] by blast
    then show "flattened e" using attach_join_flattened[OF v(4)] f by simp
  qed
next
  case (JoinExprTable x1 x2 x3a)
  then show ?case by (auto split: if_splits sum.splits simp: join_expr_table_flattened)
next
  case (TableExprIdentifier x)
  then show ?case by (simp add: visitTableIdentifier_flattened)
qed (auto split: sum.splits)



subsection \<open>The integer check and the unsupported clauses\<close>




lemma unsupported_clause_present:
  "unsupported_clause c =
     (case present_clauses c of [] \<Rightarrow> None
      | n # ns \<Rightarrow> Some (NotImplementedError (''Unsupported: SelectStmt.'' @ n @ ''()'')))"
  by (simp add: unsupported_clause_def present_clauses_def)

subsection \<open>Evaluating literals and identifiers\<close>

lemmas number_simps =
  cst_number_def visitNumberLiteral_def py_int_def py_float_def is_digit_def digits_value_def
  is_mantissa_def is_exponent_def is_e_def py_lower_def lower_char_def


subsection \<open>Every chain has two segments\<close>















section \<open>Join chains\<close>



section \<open>Boolean flattening\<close>

text \<open>
  C2. The \<^verbatim>\<open>exprs\<close> of a converted \<^verbatim>\<open>AND\<close> are the element lists of its two converted
  operands, one after the other, where an operand that is an \<^verbatim>\<open>And\<close> contributes its
  \<^verbatim>\<open>exprs\<close> and any other operand itself; likewise for \<^verbatim>\<open>OR\<close>. Hence every tree the converter
  returns, for an expression or a statement, is flattened: no \<^verbatim>\<open>And\<close> is directly inside an
  \<^verbatim>\<open>And\<close> and no \<^verbatim>\<open>Or\<close> directly inside an \<^verbatim>\<open>Or\<close>. A chain \<^verbatim>\<open>a AND b AND c\<close> of operands that are
  not themselves conjunctions gives one \<^verbatim>\<open>And\<close> of exactly the three converted operands in
  source order, whether the parse tree nests to the left or to the right; likewise for \<^verbatim>\<open>OR\<close>.
\<close>

theorem and_or_flattening:
  "(\<forall>l r. visitColumnExpr psl c0 = Inr l \<longrightarrow> visitColumnExpr psl c1 = Inr r \<longrightarrow>
       visitColumnExpr psl (ColumnExprAnd c0 c1) =
         Inr (And ((case l of And xs \<Rightarrow> xs | _ \<Rightarrow> [l]) @ (case r of And ys \<Rightarrow> ys | _ \<Rightarrow> [r]))) \<and>
       visitColumnExpr psl (ColumnExprOr c0 c1) =
         Inr (Or ((case l of Or xs \<Rightarrow> xs | _ \<Rightarrow> [l]) @ (case r of Or ys \<Rightarrow> ys | _ \<Rightarrow> [r]))))
   \<and> (\<forall>e. visitColumnExpr psl c = Inr e \<longrightarrow> flattened e)
   \<and> (\<forall>e. visitSelectQuery psl q = Inr e \<longrightarrow> flattened e)
   \<and> (\<forall>x y z. visitColumnExpr psl a = Inr x \<longrightarrow> visitColumnExpr psl b = Inr y \<longrightarrow>
         visitColumnExpr psl d = Inr z \<longrightarrow>
         (\<not> is_And x \<and> \<not> is_And y \<and> \<not> is_And z \<longrightarrow>
            visitColumnExpr psl (ColumnExprAnd (ColumnExprAnd a b) d) = Inr (And [x, y, z]) \<and>
            visitColumnExpr psl (ColumnExprAnd a (ColumnExprAnd b d)) = Inr (And [x, y, z])) \<and>
         (\<not> is_Or x \<and> \<not> is_Or y \<and> \<not> is_Or z \<longrightarrow>
            visitColumnExpr psl (ColumnExprOr (ColumnExprOr a b) d) = Inr (Or [x, y, z]) \<and>
            visitColumnExpr psl (ColumnExprOr a (ColumnExprOr b d)) = Inr (Or [x, y, z])))"
proof (intro conjI allI impI)
  fix l r
  assume lr: "visitColumnExpr psl c0 = Inr l" "visitColumnExpr psl c1 = Inr r"
  have a: "and_array l = (case l of And xs \<Rightarrow> xs | _ \<Rightarrow> [l])" for l
    by (cases l) simp_all
  have o: "or_array l = (case l of Or xs \<Rightarrow> xs | _ \<Rightarrow> [l])" for l
    by (cases l) simp_all
  show "visitColumnExpr psl (ColumnExprAnd c0 c1) =
         Inr (And ((case l of And xs \<Rightarrow> xs | _ \<Rightarrow> [l]) @ (case r of And ys \<Rightarrow> ys | _ \<Rightarrow> [r])))"
    using lr by (simp add: a)
  show "visitColumnExpr psl (ColumnExprOr c0 c1) =
         Inr (Or ((case l of Or xs \<Rightarrow> xs | _ \<Rightarrow> [l]) @ (case r of Or ys \<Rightarrow> ys | _ \<Rightarrow> [r])))"
    using lr by (simp add: o)
next
  fix e assume "visitColumnExpr psl c = Inr e"
  then show "flattened e" using visit_flattened(1) by blast
next
  fix e assume "visitSelectQuery psl q = Inr e"
  then show "flattened e"
    using visit_flattened(3,5) by (cases q) auto
next
  fix x y z
  assume v: "visitColumnExpr psl a = Inr x" "visitColumnExpr psl b = Inr y"
    "visitColumnExpr psl d = Inr z"
  have a1: "and_array e = [e]" if "\<not> is_And e" for e using that by (cases e) simp_all
  have o1: "or_array e = [e]" if "\<not> is_Or e" for e using that by (cases e) simp_all
  {
    assume n: "\<not> is_And x \<and> \<not> is_And y \<and> \<not> is_And z"
    show "visitColumnExpr psl (ColumnExprAnd (ColumnExprAnd a b) d) = Inr (And [x, y, z])"
      using v n by (simp add: a1)
    show "visitColumnExpr psl (ColumnExprAnd a (ColumnExprAnd b d)) = Inr (And [x, y, z])"
      using v n by (simp add: a1)
  }
  {
    assume n: "\<not> is_Or x \<and> \<not> is_Or y \<and> \<not> is_Or z"
    show "visitColumnExpr psl (ColumnExprOr (ColumnExprOr a b) d) = Inr (Or [x, y, z])"
      using v n by (simp add: o1)
    show "visitColumnExpr psl (ColumnExprOr a (ColumnExprOr b d)) = Inr (Or [x, y, z])"
      using v n by (simp add: o1)
  }
qed

theorem and_or_flattening_witness:
  "visitColumnExpr unquote (cst_ident ''a'') = Inr (FieldAccess ''a'') \<and>
   visitColumnExpr unquote (cst_ident ''b'') = Inr (FieldAccess ''b'') \<and>
   visitColumnExpr unquote (cst_ident ''c'') = Inr (FieldAccess ''c'') \<and>
   \<not> is_And (FieldAccess ''a'') \<and> \<not> is_And (FieldAccess ''b'') \<and> \<not> is_And (FieldAccess ''c'') \<and>
   \<not> is_Or (FieldAccess ''a'') \<and> \<not> is_Or (FieldAccess ''b'') \<and> \<not> is_Or (FieldAccess ''c'') \<and>
   visitColumnExpr unquote
       (ColumnExprAnd (ColumnExprAnd (cst_ident ''a'') (cst_ident ''b'')) (cst_ident ''c'')) =
     Inr (And [FieldAccess ''a'', FieldAccess ''b'', FieldAccess ''c'']) \<and>
   visitColumnExpr unquote
       (ColumnExprAnd (cst_ident ''a'') (ColumnExprAnd (cst_ident ''b'') (cst_ident ''c''))) =
     Inr (And [FieldAccess ''a'', FieldAccess ''b'', FieldAccess ''c'']) \<and>
   visitColumnExpr unquote
       (ColumnExprOr (ColumnExprOr (cst_ident ''a'') (cst_ident ''b'')) (cst_ident ''c'')) =
     Inr (Or [FieldAccess ''a'', FieldAccess ''b'', FieldAccess ''c'']) \<and>
   visitColumnExpr unquote
       (ColumnExprOr (cst_ident ''a'') (ColumnExprOr (cst_ident ''b'') (cst_ident ''c''))) =
     Inr (Or [FieldAccess ''a'', FieldAccess ''b'', FieldAccess ''c'']) \<and>
   flattened (And [FieldAccess ''a'', FieldAccess ''b'', FieldAccess ''c''])"
proof -
  have h: "visitColumnExpr unquote (cst_ident ''a'') = Inr (FieldAccess ''a'')"
    "visitColumnExpr unquote (cst_ident ''b'') = Inr (FieldAccess ''b'')"
    "visitColumnExpr unquote (cst_ident ''c'') = Inr (FieldAccess ''c'')"
    by (simp_all add: cst_ident_def py_lower_def lower_char_def)
  show ?thesis
    using h and_or_flattening [of unquote "cst_ident ''a''" "cst_ident ''b''"
        "ColumnExprAnd (ColumnExprAnd (cst_ident ''a'') (cst_ident ''b'')) (cst_ident ''c'')"
        "SelectQuery_Union (SelectUnionStmt [])"
        "cst_ident ''a''" "cst_ident ''b''" "cst_ident ''c''"]
    by simp
qed

section \<open>LIMIT and OFFSET\<close>







section \<open>Arithmetic and comparison\<close>



section \<open>Kinds of error\<close>

text \<open>
  C5, as amended. Of the three rule violations only a LIMIT that is not an integer constant
  raises an error of a kind of its own, a plain \<^verbatim>\<open>Exception\<close>. A JOIN ... ON constraint whose
  expression list does not have exactly one element, array access with a key that is not a
  constant, and array access on a base that is neither \<^verbatim>\<open>FieldAccess\<close> nor \<^verbatim>\<open>FieldAccessChain\<close>
  raise \<^verbatim>\<open>NotImplementedError\<close>, the kind that productions without support raise.
\<close>

theorem semantic_error_kinds:
  "(\<forall>obj property. visitColumnExpr psl c0 = Inr obj \<longrightarrow> visitColumnExpr psl c1 = Inr property \<longrightarrow>
       ((\<forall>v. property \<noteq> Constant v) \<longrightarrow>
          visitColumnExpr psl (ColumnExprArrayAccess c0 c1) =
            Inl (NotImplementedError ''Array access must be performed with a constant.'')) \<and>
       ((\<exists>v. property = Constant v) \<and> (\<forall>f. obj \<noteq> FieldAccess f)
            \<and> (\<forall>c. obj \<noteq> FieldAccessChain c) \<longrightarrow>
          visitColumnExpr psl (ColumnExprArrayAccess c0 c1) =
            Inl (NotImplementedError
              (''Unsupported combination for ColumnExprArrayAccess: '' @ class_name obj
                 @ ''[Constant]''))))
   \<and> (\<forall>join1 join2 join_type xs. visitJoinExpr psl l = Inr join1 \<longrightarrow>
        visitJoinExpr psl r = Inr join2 \<longrightarrow> join_type_of joinOp = Inr join_type \<longrightarrow>
        sequence (map (visitColumnsExpr psl) on) = Inr xs \<longrightarrow> length xs \<noteq> 1 \<longrightarrow>
          visitJoinExpr psl (JoinExprOp False False l r joinOp False on) =
            Inl (NotImplementedError ''Unsupported: JOIN ... ON with multiple expressions''))
   \<and> (\<forall>select select_from where prewhere having limit_node.
        sequence (map (visitColumnsExpr psl) columnExprList) = Inr select \<longrightarrow>
        optional (map_option (visitJoinExpr psl) fromClause) = Inr select_from \<longrightarrow>
        optional (map_option (visitColumnExpr psl) whereClause) = Inr where \<longrightarrow>
        optional (map_option (visitColumnExpr psl) prewhereClause) = Inr prewhere \<longrightarrow>
        optional (map_option (visitColumnExpr psl) havingClause) = Inr having \<longrightarrow>
        visitColumnExpr psl e0 = Inr limit_node \<longrightarrow>
        \<not> (\<exists>v. limit_node = Constant v \<and> isinstance_int v) \<longrightarrow>
          visitSelectStmt psl (SelectStmt columnExprList fromClause whereClause prewhereClause
              havingClause (e0 # rest) others) = Inl (Exception ''LIMIT must be an integer''))
   \<and> (\<forall>select select_from where prewhere having u offset_node.
        sequence (map (visitColumnsExpr psl) columnExprList) = Inr select \<longrightarrow>
        optional (map_option (visitJoinExpr psl) fromClause) = Inr select_from \<longrightarrow>
        optional (map_option (visitColumnExpr psl) whereClause) = Inr where \<longrightarrow>
        optional (map_option (visitColumnExpr psl) prewhereClause) = Inr prewhere \<longrightarrow>
        optional (map_option (visitColumnExpr psl) havingClause) = Inr having \<longrightarrow>
        visitColumnExpr psl e0 = Inr (Constant u) \<longrightarrow> isinstance_int u \<longrightarrow>
        visitColumnExpr psl e1 = Inr offset_node \<longrightarrow>
        \<not> (\<exists>v. offset_node = Constant v \<and> isinstance_int v) \<longrightarrow>
          visitSelectStmt psl (SelectStmt columnExprList fromClause whereClause prewhereClause
              havingClause (e0 # e1 # rest) others) =
            Inl (Exception ''OFFSET must be an integer''))
   \<and> visitColumnExpr psl (ColumnExprUnsupported k) =
        Inl (NotImplementedError (unsupported_node k))"
proof (intro conjI allI impI)
  fix obj property
  assume v: "visitColumnExpr psl c0 = Inr obj" "visitColumnExpr psl c1 = Inr property"
  {
    assume "\<forall>v. property \<noteq> Constant v"
    then have "array_access obj property =
        Inl (NotImplementedError ''Array access must be performed with a constant.'')"
      by (cases property) (simp_all add: array_access_def)
    then show "visitColumnExpr psl (ColumnExprArrayAccess c0 c1) =
            Inl (NotImplementedError ''Array access must be performed with a constant.'')"
      using v by simp
  }
  {
    assume "(\<exists>v. property = Constant v) \<and> (\<forall>f. obj \<noteq> FieldAccess f)
            \<and> (\<forall>c. obj \<noteq> FieldAccessChain c)"
    then have "array_access obj property =
        Inl (NotImplementedError
              (''Unsupported combination for ColumnExprArrayAccess: '' @ class_name obj
                 @ ''[Constant]''))"
      by (cases obj) (auto simp: array_access_def)
    then show "visitColumnExpr psl (ColumnExprArrayAccess c0 c1) =
            Inl (NotImplementedError
              (''Unsupported combination for ColumnExprArrayAccess: '' @ class_name obj
                 @ ''[Constant]''))"
      using v by simp
  }
next
  fix join1 join2 join_type xs
  assume a: "visitJoinExpr psl l = Inr join1" "visitJoinExpr psl r = Inr join2"
    "join_type_of joinOp = Inr join_type"
    "sequence (map (visitColumnsExpr psl) on) = Inr xs" "length xs \<noteq> 1"
  have "visitJoinConstraintClause False (Inr xs) =
      Inl (NotImplementedError ''Unsupported: JOIN ... ON with multiple expressions'')"
    using a(5) by (cases xs rule: list.exhaust; cases "tl xs")
      (auto simp: visitJoinConstraintClause_def)
  then show "visitJoinExpr psl (JoinExprOp False False l r joinOp False on) =
            Inl (NotImplementedError ''Unsupported: JOIN ... ON with multiple expressions'')"
    using a by simp
next
  fix select select_from "where" prewhere having limit_node
  assume a: "sequence (map (visitColumnsExpr psl) columnExprList) = Inr select"
    "optional (map_option (visitJoinExpr psl) fromClause) = Inr select_from"
    "optional (map_option (visitColumnExpr psl) whereClause) = Inr where"
    "optional (map_option (visitColumnExpr psl) prewhereClause) = Inr prewhere"
    "optional (map_option (visitColumnExpr psl) havingClause) = Inr having"
    "visitColumnExpr psl e0 = Inr limit_node"
    and n: "\<not> (\<exists>v. limit_node = Constant v \<and> isinstance_int v)"
  have "integer_constant ''LIMIT must be an integer'' limit_node =
      Inl (Exception ''LIMIT must be an integer'')"
    using n by (cases limit_node) auto
  then show "visitSelectStmt psl (SelectStmt columnExprList fromClause whereClause prewhereClause
              havingClause (e0 # rest) others) = Inl (Exception ''LIMIT must be an integer'')"
    using a by simp
next
  fix select select_from "where" prewhere having u offset_node
  assume a: "sequence (map (visitColumnsExpr psl) columnExprList) = Inr select"
    "optional (map_option (visitJoinExpr psl) fromClause) = Inr select_from"
    "optional (map_option (visitColumnExpr psl) whereClause) = Inr where"
    "optional (map_option (visitColumnExpr psl) prewhereClause) = Inr prewhere"
    "optional (map_option (visitColumnExpr psl) havingClause) = Inr having"
    "visitColumnExpr psl e0 = Inr (Constant u)" "isinstance_int u"
    "visitColumnExpr psl e1 = Inr offset_node"
    and n: "\<not> (\<exists>v. offset_node = Constant v \<and> isinstance_int v)"
  have "integer_constant ''OFFSET must be an integer'' offset_node =
      Inl (Exception ''OFFSET must be an integer'')"
    using n by (cases offset_node) auto
  then show "visitSelectStmt psl (SelectStmt columnExprList fromClause whereClause prewhereClause
              havingClause (e0 # e1 # rest) others) =
            Inl (Exception ''OFFSET must be an integer'')"
    using a by simp
next
  show "visitColumnExpr psl (ColumnExprUnsupported k) =
        Inl (NotImplementedError (unsupported_node k))"
    by simp
qed
theorem semantic_error_kinds_witness:
  "visitColumnExpr unquote (cst_ident ''a'') = Inr (FieldAccess ''a'') \<and>
   visitColumnExpr unquote (cst_ident ''b'') = Inr (FieldAccess ''b'') \<and>
   visitColumnExpr unquote (cst_number ''1'') = Inr (Constant (VInt 1)) \<and>
   visitColumnExpr unquote (ColumnExprArrayAccess (cst_ident ''a'') (cst_ident ''b'')) =
     Inl (NotImplementedError ''Array access must be performed with a constant.'') \<and>
   visitColumnExpr unquote (ColumnExprArrayAccess (cst_number ''1'') (cst_number ''1'')) =
     Inl (NotImplementedError
            ''Unsupported combination for ColumnExprArrayAccess: Constant[Constant]'') \<and>
   visitJoinExpr unquote
      (JoinExprOp False False (cst_table ''a'') (cst_table ''b'') None False
         [ColumnsExprColumn (cst_number ''1''), ColumnsExprColumn (cst_number ''1'')]) =
     Inl (NotImplementedError ''Unsupported: JOIN ... ON with multiple expressions'') \<and>
   visitSelectStmt unquote
      (SelectStmt [ColumnsExprColumn (cst_number ''1'')] None None None None
         [cst_ident ''a''] no_clauses) = Inl (Exception ''LIMIT must be an integer'') \<and>
   visitSelectStmt unquote
      (SelectStmt [ColumnsExprColumn (cst_number ''1'')] None None None None
         [cst_number ''1'', cst_ident ''a''] no_clauses) =
     Inl (Exception ''OFFSET must be an integer'')"
proof -
  have i: "visitColumnExpr unquote (cst_ident ''a'') = Inr (FieldAccess ''a'')"
    "visitColumnExpr unquote (cst_ident ''b'') = Inr (FieldAccess ''b'')"
    by (simp_all add: cst_ident_def py_lower_def lower_char_def)
  have n: "visitColumnExpr unquote (cst_number ''1'') = Inr (Constant (VInt 1))"
    by (simp add: number_simps)
  have j: "visitJoinExpr unquote (cst_table ''a'') =
      Inr (JoinExpr (FieldAccess ''a'') None None None None None)"
    "visitJoinExpr unquote (cst_table ''b'') =
      Inr (JoinExpr (FieldAccess ''b'') None None None None None)"
    by (simp_all add: cst_table_def)
  have s: "sequence (map (visitColumnsExpr unquote)
        [ColumnsExprColumn (cst_number ''1''), ColumnsExprColumn (cst_number ''1'')]) =
      Inr [Constant (VInt 1), Constant (VInt 1)]"
    "sequence (map (visitColumnsExpr unquote) [ColumnsExprColumn (cst_number ''1'')]) =
      Inr [Constant (VInt 1)]"
    using n by simp_all
  have o: "optional (map_option (visitJoinExpr unquote) None) = Inr None"
    "optional (map_option (visitColumnExpr unquote) None) = Inr None"
    by simp_all
  note a = semantic_error_kinds [of unquote "cst_ident ''a''" "cst_ident ''b''"
      "cst_table ''a''" "cst_table ''b''" None
      "[ColumnsExprColumn (cst_number ''1''), ColumnsExprColumn (cst_number ''1'')]"
      "[ColumnsExprColumn (cst_number ''1'')]" None None None None "cst_ident ''a''" "[]"
      no_clauses "cst_ident ''a''" ColumnExprCast]
  note b = semantic_error_kinds [of unquote "cst_number ''1''" "cst_number ''1''"
      "cst_table ''a''" "cst_table ''b''" None
      "[ColumnsExprColumn (cst_number ''1''), ColumnsExprColumn (cst_number ''1'')]"
      "[ColumnsExprColumn (cst_number ''1'')]" None None None None "cst_number ''1''" "[]"
      no_clauses "cst_ident ''a''" ColumnExprCast]
  show ?thesis
    using i n j s o a b by simp
qed

text \<open>
  The claim as first stated fails on \<^verbatim>\<open>a[b]\<close> and on a constraint with two expressions: both
  raise \<^verbatim>\<open>NotImplementedError\<close>, as the unsupported \<^verbatim>\<open>CAST\<close> does.
\<close>

theorem semantic_error_kinds_counterexample:
  "visitColumnExpr unquote (ColumnExprArrayAccess (cst_ident ''a'') (cst_ident ''b'')) =
     Inl (NotImplementedError ''Array access must be performed with a constant.'') \<and>
   visitJoinExpr unquote
      (JoinExprOp False False (cst_table ''a'') (cst_table ''b'') None False
         [ColumnsExprColumn (cst_number ''1''), ColumnsExprColumn (cst_number ''2'')]) =
     Inl (NotImplementedError ''Unsupported: JOIN ... ON with multiple expressions'') \<and>
   visitColumnExpr unquote (ColumnExprUnsupported ColumnExprCast) =
     Inl (NotImplementedError ''Unsupported node: ColumnExprCast'')"
  by (simp add: number_simps cst_ident_def cst_table_def array_access_def
        visitJoinConstraintClause_def)

section \<open>Field access chains\<close>



section \<open>Unsupported clauses\<close>

text \<open>
  C7, as amended. A statement with one of the clauses WITH, TOP, ARRAY JOIN, WINDOW,
  GROUP BY, ORDER BY, LIMIT BY, SETTINGS never converts: the result is an error and no
  tree. When the select list, the FROM, WHERE, PREWHERE and HAVING clauses and LIMIT/OFFSET
  convert without error, the error is the \<^verbatim>\<open>NotImplementedError\<close> that names the first such
  clause present, in that order, as \<^verbatim>\<open>Unsupported: SelectStmt.<name>()\<close>; for
  \<^verbatim>\<open>SELECT 1 GROUP BY 1\<close> it names \<^verbatim>\<open>groupByClause\<close>.
\<close>

theorem unsupported_clause_fails:
  "(present_clauses others \<noteq> [] \<longrightarrow>
      (\<exists>e. visitSelectStmt psl (SelectStmt columnExprList fromClause whereClause prewhereClause
              havingClause limitExpr others) = Inl e))
   \<and> (\<forall>select select_from where prewhere having lo n ns.
        sequence (map (visitColumnsExpr psl) columnExprList) = Inr select \<longrightarrow>
        optional (map_option (visitJoinExpr psl) fromClause) = Inr select_from \<longrightarrow>
        optional (map_option (visitColumnExpr psl) whereClause) = Inr where \<longrightarrow>
        optional (map_option (visitColumnExpr psl) prewhereClause) = Inr prewhere \<longrightarrow>
        optional (map_option (visitColumnExpr psl) havingClause) = Inr having \<longrightarrow>
        limit_offset (map (visitColumnExpr psl) limitExpr) = Inr lo \<longrightarrow>
        present_clauses others = n # ns \<longrightarrow>
        visitSelectStmt psl (SelectStmt columnExprList fromClause whereClause prewhereClause
              havingClause limitExpr others) =
          Inl (NotImplementedError (''Unsupported: SelectStmt.'' @ n @ ''()'')))"
proof (intro conjI allI impI)
  assume p: "present_clauses others \<noteq> []"
  then obtain e where e: "unsupported_clause others = Some e"
    by (cases "present_clauses others") (simp_all add: unsupported_clause_present)
  show "\<exists>e. visitSelectStmt psl (SelectStmt columnExprList fromClause whereClause prewhereClause
              havingClause limitExpr others) = Inl e"
    using e by (simp split: sum.splits prod.splits)
next
  fix select select_from "where" prewhere having lo n ns
  assume a: "sequence (map (visitColumnsExpr psl) columnExprList) = Inr select"
    "optional (map_option (visitJoinExpr psl) fromClause) = Inr select_from"
    "optional (map_option (visitColumnExpr psl) whereClause) = Inr where"
    "optional (map_option (visitColumnExpr psl) prewhereClause) = Inr prewhere"
    "optional (map_option (visitColumnExpr psl) havingClause) = Inr having"
    "limit_offset (map (visitColumnExpr psl) limitExpr) = Inr lo"
    and p: "present_clauses others = n # ns"
  have "unsupported_clause others =
      Some (NotImplementedError (''Unsupported: SelectStmt.'' @ n @ ''()''))"
    using p by (simp add: unsupported_clause_present)
  then show "visitSelectStmt psl (SelectStmt columnExprList fromClause whereClause prewhereClause
              havingClause limitExpr others) =
          Inl (NotImplementedError (''Unsupported: SelectStmt.'' @ n @ ''()''))"
    using a by (simp split: prod.splits)
qed

theorem unsupported_clause_fails_witness:
  "present_clauses (no_clauses\<lparr>groupByClause := True\<rparr>) = [''groupByClause''] \<and>
   visitSelectStmt unquote
      (SelectStmt [ColumnsExprColumn (cst_number ''1'')] None None None None []
         (no_clauses\<lparr>groupByClause := True\<rparr>)) =
     Inl (NotImplementedError ''Unsupported: SelectStmt.groupByClause()'')"
proof -
  have s: "sequence (map (visitColumnsExpr unquote) [ColumnsExprColumn (cst_number ''1'')]) =
      Inr [Constant (VInt 1)]"
    by (simp add: number_simps)
  have n: "optional (map_option (visitJoinExpr unquote) None) = Inr None"
    "optional (map_option (visitColumnExpr unquote) None) = Inr None"
    by simp_all
  have l: "limit_offset (map (visitColumnExpr unquote) []) = Inr (None, None)"
    by simp
  have p: "present_clauses (no_clauses\<lparr>groupByClause := True\<rparr>) = [''groupByClause'']"
    by (simp add: present_clauses_def no_clauses_def)
  show ?thesis
    using p s n l
      unsupported_clause_fails [of "no_clauses\<lparr>groupByClause := True\<rparr>" unquote
        "[ColumnsExprColumn (cst_number ''1'')]" None None None None "[]"]
    by simp
qed

text \<open>
  The claim as first stated fails on \<^verbatim>\<open>SELECT 1 GROUP BY 1 LIMIT 1.5\<close>: the limit is checked
  before the clauses, and the error is the one about LIMIT.
\<close>

theorem unsupported_clause_counterexample:
  "groupByClause (no_clauses\<lparr>groupByClause := True\<rparr>) \<and>
   visitSelectStmt unquote
      (SelectStmt [ColumnsExprColumn (cst_number ''1'')] None None None None
         [cst_number ''1.5''] (no_clauses\<lparr>groupByClause := True\<rparr>)) =
     Inl (Exception ''LIMIT must be an integer'')"
  by (simp add: number_simps no_clauses_def)

section \<open>Boolean literals and placeholders\<close>

text \<open>
  C8. An unqualified single identifier whose text, in lower case, is \<^verbatim>\<open>true\<close> or \<^verbatim>\<open>false\<close>
  converts to the boolean constant; any other one converts to a \<^verbatim>\<open>FieldAccess\<close>. Behind a
  table prefix the test is not made: the segments of the table and the identifier form a
  \<^verbatim>\<open>FieldAccessChain\<close>, also when the identifier is spelled \<^verbatim>\<open>true\<close> or \<^verbatim>\<open>false\<close>.
\<close>

theorem boolean_identifier:
  "(py_lower t = ''true'' \<longrightarrow>
      visitColumnExpr psl
        (ColumnExprIdentifier (ColumnIdentifier None (NestedIdentifier (Identifier t) []))) =
        Inr (Constant (VBool True)))
   \<and> (py_lower t = ''false'' \<longrightarrow>
      visitColumnExpr psl
        (ColumnExprIdentifier (ColumnIdentifier None (NestedIdentifier (Identifier t) []))) =
        Inr (Constant (VBool False)))
   \<and> (py_lower t \<noteq> ''true'' \<and> py_lower t \<noteq> ''false'' \<longrightarrow>
      visitColumnExpr psl
        (ColumnExprIdentifier (ColumnIdentifier None (NestedIdentifier (Identifier t) []))) =
        Inr (FieldAccess t))
   \<and> visitColumnExpr psl
        (ColumnExprIdentifier
          (ColumnIdentifier (Some (TableIdentifier None tb)) (NestedIdentifier (Identifier t) []))) =
        Inr (FieldAccessChain [VStr (identifier_getText tb), VStr t])
   \<and> visitColumnExpr psl
        (ColumnExprIdentifier
          (ColumnIdentifier (Some (TableIdentifier (Some db) tb))
             (NestedIdentifier (Identifier t) []))) =
        Inr (FieldAccessChain
               [VStr (identifier_getText db), VStr (identifier_getText tb), VStr t])"
  by simp

theorem boolean_identifier_witness:
  "py_lower ''True'' = ''true'' \<and> py_lower ''FALSE'' = ''false'' \<and>
   visitColumnExpr unquote (cst_ident ''True'') = Inr (Constant (VBool True)) \<and>
   visitColumnExpr unquote (cst_ident ''FALSE'') = Inr (Constant (VBool False)) \<and>
   visitColumnExpr unquote
     (ColumnExprIdentifier
        (ColumnIdentifier (Some (TableIdentifier None (Identifier ''t'')))
           (NestedIdentifier (Identifier ''True'') []))) =
     Inr (FieldAccessChain [VStr ''t'', VStr ''True''])"
proof -
  have p: "py_lower ''True'' = ''true''" "py_lower ''FALSE'' = ''false''"
    by code_simp+
  show ?thesis
    using p boolean_identifier [of "''True''" unquote "Identifier ''t''"]
      boolean_identifier [of "''FALSE''" unquote "Identifier ''t''"]
    by (simp add: cst_ident_def)
qed



end
